theory Spec2Isabelle
  imports Main "HOL-Library.Sublist"
begin

section \<open>Python values and exceptions\<close>

text \<open>
  The lineup scraper is Python. Its strings are modelled as HOL strings, one \<open>char\<close> per
  code point below 256; its unbounded integers as \<open>int\<close>; \<open>None\<close> as the \<open>None\<close> of an
  option type. An exception that leaves a function is the \<open>Inl\<close> of a sum type. Only
  \<open>ValueError\<close> carries its message here, since the source raises one of its own and the
  interpreter raises others: the interpreter's messages are written without their variable
  tail (the offending literal, the number of values found).
\<close>

datatype error =
    ValueError string
  | TypeError
  | AttributeError
  | IndexError
  | UnboundLocalError

fun bind_err :: "error + 'a \<Rightarrow> ('a \<Rightarrow> error + 'b) \<Rightarrow> error + 'b" where
  "bind_err (Inl e) f = Inl e"
| "bind_err (Inr x) f = f x"

definition no_games_msg :: string where
  "no_games_msg = ''No games discovered on this date.''"

definition invalid_literal_msg :: string where
  "invalid_literal_msg = ''invalid literal for int() with base 10''"

definition exceeds_limit_msg :: string where
  "exceeds_limit_msg = ''Exceeds the limit (4300 digits) for integer string conversion''"

definition not_enough_msg :: string where
  "not_enough_msg = ''not enough values to unpack''"

definition too_many_msg :: string where
  "too_many_msg = ''too many values to unpack''"

section \<open>Text utilities\<close>

subsection \<open>The string methods the scraper calls\<close>

definition is_digit :: "char \<Rightarrow> bool" where
  "is_digit c \<longleftrightarrow> c \<in> set ''0123456789''"

definition digit_val :: "char \<Rightarrow> int" where
  "digit_val c = int (of_char c) - 48"

text \<open>\<open>str.isspace\<close> on one character: the white space of Unicode below code point 256.\<close>

definition is_space :: "char \<Rightarrow> bool" where
  "is_space c \<longleftrightarrow> (of_char c :: nat) \<in> {9, 10, 11, 12, 13, 28, 29, 30, 31, 32, 133, 160}"

text \<open>The line boundaries of \<open>str.splitlines\<close> below code point 256.\<close>

definition is_linebreak :: "char \<Rightarrow> bool" where
  "is_linebreak c \<longleftrightarrow> (of_char c :: nat) \<in> {10, 11, 12, 13, 28, 29, 30, 133}"

definition strip :: "string \<Rightarrow> string" where
  "strip s = rev (dropWhile is_space (rev (dropWhile is_space s)))"

text \<open>\<open>s.isspace()\<close>: false on the empty string.\<close>

definition isspace :: "string \<Rightarrow> bool" where
  "isspace s \<longleftrightarrow> s \<noteq> [] \<and> list_all is_space s"

text \<open>
  \<open>s.splitlines()\<close>: a carriage return followed by a line feed is one boundary, and a
  boundary at the very end opens no further line.
\<close>

fun splitlines :: "string \<Rightarrow> string list" where
  "splitlines [] = []"
| "splitlines (c # cs) =
     (if is_linebreak c then
        (case cs of
           d # ds \<Rightarrow> if of_char c = (13::nat) \<and> of_char d = (10::nat)
                     then [] # splitlines ds else [] # splitlines cs
         | [] \<Rightarrow> [[]])
      else (case splitlines cs of [] \<Rightarrow> [[c]] | l # ls \<Rightarrow> (c # l) # ls))"

text \<open>\<open>s.split(sep)\<close> for a separator of one character.\<close>

fun split_on :: "char \<Rightarrow> string \<Rightarrow> string list" where
  "split_on sep [] = [[]]"
| "split_on sep (c # cs) =
     (if c = sep then [] # split_on sep cs
      else (case split_on sep cs of [] \<Rightarrow> [[c]] | l # ls \<Rightarrow> (c # l) # ls))"

text \<open>\<open>s.replace(c, "")\<close> for a single character \<open>c\<close>.\<close>

definition remove_char :: "char \<Rightarrow> string \<Rightarrow> string" where
  "remove_char c s = filter (\<lambda>x. x \<noteq> c) s"

text \<open>
  \<open>str.lower\<close> and \<open>str.upper\<close>. Lowering a character below code point 256 gives one
  below 256. Raising does not: the capital of code point 181 is code point 924, that of
  255 is 376, and that of 223 is two letters. So \<open>upper\<close> returns the code points of its
  result, and \<open>codes\<close> gives the code points of a string of the model.
\<close>

definition codes :: "string \<Rightarrow> nat list" where
  "codes s = map of_char s"

definition lower_char :: "char \<Rightarrow> char" where
  "lower_char c =
     (let n = (of_char c :: nat)
      in if (65 \<le> n \<and> n \<le> 90) \<or> (192 \<le> n \<and> n \<le> 222 \<and> n \<noteq> 215)
         then char_of (n + 32) else c)"

definition upper_char :: "char \<Rightarrow> nat list" where
  "upper_char c =
     (let n = (of_char c :: nat)
      in if (97 \<le> n \<and> n \<le> 122) \<or> (224 \<le> n \<and> n \<le> 254 \<and> n \<noteq> 247) then [n - 32]
         else if n = 181 then [924]
         else if n = 223 then [83, 83]
         else if n = 255 then [376]
         else [n])"

definition lower :: "string \<Rightarrow> string" where
  "lower s = map lower_char s"

definition upper :: "string \<Rightarrow> nat list" where
  "upper s = concat (map upper_char s)"

text \<open>\<open>needle in haystack\<close> on strings.\<close>

definition contains :: "string \<Rightarrow> string \<Rightarrow> bool" where
  "contains needle haystack \<longleftrightarrow> (\<exists>i \<in> set (upt 0 (Suc (length haystack))). prefix needle (drop i haystack))"

subsection \<open>\<open>int(str)\<close>\<close>

text \<open>
  Python's \<open>int\<close> on a string, in the order in which CPython 3.11 makes its checks.
  White space before the number is skipped; for \<open>int\<close> that is the code points 9 to 13,
  32, 133 and 160, not the separators 28 to 31 that \<open>str.isspace\<close> also accepts. One sign
  may follow. Then the digits and underscores that follow are scanned: an underscore may
  only stand between two digits. A scan of more than \<open>int_max_str_digits\<close> digits is
  refused; the scraper leaves that limit at the interpreter's default of 4300. Last, only
  white space may be left. Every refusal is a \<open>ValueError\<close>.
\<close>

definition is_int_space :: "char \<Rightarrow> bool" where
  "is_int_space c \<longleftrightarrow> (of_char c :: nat) \<in> {9, 10, 11, 12, 13, 32, 133, 160}"

definition int_max_str_digits :: nat where
  "int_max_str_digits = 4300"

definition digit_or_us :: "char \<Rightarrow> bool" where
  "digit_or_us c \<longleftrightarrow> is_digit c \<or> c = CHR ''_''"

text \<open>The scan of digits and underscores: \<open>prev\<close> says that a digit came last, \<open>acc\<close> is
  the number read so far.\<close>

fun digits_us :: "bool \<Rightarrow> int \<Rightarrow> string \<Rightarrow> int option" where
  "digits_us prev acc [] = (if prev then Some acc else None)"
| "digits_us prev acc (c # cs) =
     (if is_digit c then digits_us True (10 * acc + digit_val c) cs
      else if c = CHR ''_'' \<and> prev then digits_us False acc cs
      else None)"

definition py_int :: "string \<Rightarrow> error + int" where
  "py_int s =
     (let t = dropWhile is_int_space s;
          (neg, body) =
            (case t of
               [] \<Rightarrow> (False, t)
             | c # r \<Rightarrow> if c = CHR ''-'' then (True, r)
                        else if c = CHR ''+'' then (False, r) else (False, t));
          scan = takeWhile digit_or_us body;
          rest = dropWhile digit_or_us body
      in case digits_us False 0 scan of
           None \<Rightarrow> Inl (ValueError invalid_literal_msg)
         | Some n \<Rightarrow>
             if int_max_str_digits < length (filter is_digit scan)
             then Inl (ValueError exceeds_limit_msg)
             else if dropWhile is_int_space rest \<noteq> []
             then Inl (ValueError invalid_literal_msg)
             else Inr (if neg then - n else n))"

text \<open>\<open>int(None)\<close> is a \<open>TypeError\<close>.\<close>

definition py_int_opt :: "string option \<Rightarrow> error + int" where
  "py_int_opt v = (case v of None \<Rightarrow> Inl TypeError | Some s \<Rightarrow> py_int s)"

subsection \<open>\<open>extract_int\<close>\<close>

text \<open>
  \<open>re.search(r"\d+", s)\<close>: the scan tries each position from the left; at the first one
  where a digit stands, the greedy \<open>+\<close> takes every digit that follows.
\<close>

fun re_search_digits :: "string \<Rightarrow> string option" where
  "re_search_digits [] = None"
| "re_search_digits (c # cs) =
     (if is_digit c then Some (c # takeWhile is_digit cs) else re_search_digits cs)"

definition extract_int :: "string \<Rightarrow> error + int option" where
  "extract_int s =
     (case re_search_digits s of
        Some m \<Rightarrow> bind_err (py_int m) (\<lambda>n. Inr (Some n))
      | None \<Rightarrow> Inr None)"

text \<open>The number a run of decimal digits denotes, most significant digit first.\<close>

definition decimal_value :: "string \<Rightarrow> int" where
  "decimal_value ds = (\<Sum>i < length ds. digit_val (ds ! i) * 10 ^ (length ds - 1 - i))"


section \<open>The parsed document\<close>

text \<open>
  The scraper reads its input through an HTML parser and never looks at the markup text
  itself. The model starts from the tree the parser hands over: an element has a tag name,
  the list of its classes, its other attributes and its children; a text node has its
  string. Comments and other strings that \<open>get_text\<close> skips are left out of the tree.
\<close>

datatype node =
    Text string
  | Elem string "string list" "(string \<times> string) list" "node list"

text \<open>The root object of a parsed document: no name of its own, no attributes.\<close>

definition soup_root :: "node list \<Rightarrow> node" where
  "soup_root ns = Elem ''[document]'' [] [] ns"

fun get_text :: "node \<Rightarrow> string" where
  "get_text (Text s) = s"
| "get_text (Elem t cs as ch) = concat (map get_text ch)"

text \<open>Everything below a node, in document order; the node itself is not part of it.\<close>

fun descendants :: "node \<Rightarrow> node list" where
  "descendants (Text s) = []"
| "descendants (Elem t cs as ch) = concat (map (\<lambda>c. c # descendants c) ch)"

fun has_class :: "string \<Rightarrow> node \<Rightarrow> bool" where
  "has_class cls (Text s) = False"
| "has_class cls (Elem t cs as ch) = (cls \<in> set cs)"

fun has_tag :: "string \<Rightarrow> node \<Rightarrow> bool" where
  "has_tag nm (Text s) = False"
| "has_tag nm (Elem t cs as ch) = (t = nm)"

text \<open>\<open>tag.attrs.get(key)\<close>.\<close>

fun attrs_get :: "string \<Rightarrow> node \<Rightarrow> string option" where
  "attrs_get k (Text s) = None"
| "attrs_get k (Elem t cs as ch) = map_of as k"

text \<open>\<open>tag.select(".cls")\<close> and \<open>tag.select("name")\<close>.\<close>

definition select_class :: "string \<Rightarrow> node \<Rightarrow> node list" where
  "select_class cls n = filter (has_class cls) (descendants n)"

definition select_tag :: "string \<Rightarrow> node \<Rightarrow> node list" where
  "select_tag nm n = filter (has_tag nm) (descendants n)"

text \<open>\<open>tag.select(".p > .c")\<close>: the elements of class \<open>c\<close> whose parent has class \<open>p\<close>.\<close>

fun select_child :: "string \<Rightarrow> string \<Rightarrow> node \<Rightarrow> node list" where
  "select_child p c (Text s) = []"
| "select_child p c (Elem t cs as ch) =
     concat (map (\<lambda>k. (if p \<in> set cs \<and> has_class c k then [k] else []) @ select_child p c k) ch)"

text \<open>\<open>select_one\<close>: the first match, or \<open>None\<close>.\<close>

definition first_or_none :: "'a list \<Rightarrow> 'a option" where
  "first_or_none xs = (case xs of [] \<Rightarrow> None | x # _ \<Rightarrow> Some x)"

definition select_one_class :: "string \<Rightarrow> node \<Rightarrow> node option" where
  "select_one_class cls n = first_or_none (select_class cls n)"

definition select_one_tag :: "string \<Rightarrow> node \<Rightarrow> node option" where
  "select_one_tag nm n = first_or_none (select_tag nm n)"

subsection \<open>What the interpreter raises\<close>

text \<open>A method called on \<open>None\<close> is an \<open>AttributeError\<close>.\<close>

definition not_none :: "'a option \<Rightarrow> error + 'a" where
  "not_none v = (case v of None \<Rightarrow> Inl AttributeError | Some x \<Rightarrow> Inr x)"

text \<open>\<open>xs[i]\<close>, where a negative index counts from the end.\<close>

definition index :: "'a list \<Rightarrow> int \<Rightarrow> error + 'a" where
  "index xs i =
     (if 0 \<le> i \<and> i < int (length xs) then Inr (xs ! nat i)
      else if i < 0 \<and> - i \<le> int (length xs) then Inr (xs ! nat (int (length xs) + i))
      else Inl IndexError)"

text \<open>\<open>a, b = xs\<close>.\<close>

fun unpack2 :: "'a list \<Rightarrow> error + ('a \<times> 'a)" where
  "unpack2 [a, b] = Inr (a, b)"
| "unpack2 [] = Inl (ValueError not_enough_msg)"
| "unpack2 [a] = Inl (ValueError not_enough_msg)"
| "unpack2 (a # b # c # xs) = Inl (ValueError too_many_msg)"

section \<open>Player Extractor\<close>

record Player =
  name :: "string option"
  handedness :: "string option"
  mlb_id :: "int option"

definition clean_player :: "string \<Rightarrow> string list" where
  "clean_player p_str =
     (let pl = splitlines p_str;
          pl = filter (\<lambda>p. p \<noteq> [] \<and> \<not> isspace p) pl
      in map strip pl)"

definition Player_parse_name :: "node \<Rightarrow> string" where
  "Player_parse_name a =
     (case select_one_class ''desktop-name'' a of
        Some span \<Rightarrow> strip (get_text span)
      | None \<Rightarrow> strip (get_text a))"

definition Player_parse_mlb_id :: "node \<Rightarrow> string option" where
  "Player_parse_mlb_id a = attrs_get ''data-mlb'' a"

definition Player_parse :: "node \<Rightarrow> error + (string \<times> int)" where
  "Player_parse container =
     bind_err (not_none (select_one_tag ''a'' container)) (\<lambda>player_a.
     let name = Player_parse_name player_a in
     bind_err (py_int_opt (Player_parse_mlb_id player_a)) (\<lambda>mlb_id.
     Inr (name, mlb_id)))"

subsection \<open>Batter\<close>

record Batter = Player +
  order :: "int option"
  position :: string

definition parse_handedness :: "string \<Rightarrow> string" where
  "parse_handedness hand_str = remove_char (CHR '')'') (remove_char (CHR ''('') hand_str)"

definition Batter_parse ::
  "node \<Rightarrow> error + (int option \<times> string \<times> string \<times> int \<times> string)" where
  "Batter_parse soup =
     (let p = clean_player (get_text soup) in
      bind_err (index p (- 1)) (\<lambda>last_line.
      bind_err (unpack2 (split_on (CHR '' '') last_line)) (\<lambda>(hand_str, pos_str).
      bind_err (Player_parse soup) (\<lambda>(name, mlb_id).
      bind_err (index p 0) (\<lambda>first_line.
      bind_err (extract_int first_line) (\<lambda>order.
      Inr (order, name, parse_handedness hand_str, mlb_id, pos_str)))))))"

definition Batter_init :: "node \<Rightarrow> error + Batter" where
  "Batter_init soup =
     bind_err (Batter_parse soup) (\<lambda>(order, name, handedness, mlb_id, position).
     Inr \<lparr>name = Some name, handedness = Some handedness, mlb_id = Some mlb_id,
          order = order, position = position\<rparr>)"

subsection \<open>Pitcher\<close>

record Pitcher = Player +
  position :: "string option"

definition is_valid_pitcher :: "node \<Rightarrow> bool" where
  "is_valid_pitcher html \<longleftrightarrow> \<not> contains ''TBD'' (get_text html)"

definition Pitcher_parse :: "node \<Rightarrow> error + (string \<times> string \<times> int \<times> string)" where
  "Pitcher_parse soup =
     (let p = clean_player (get_text soup) in
      bind_err (Player_parse soup) (\<lambda>(name, mlb_id).
      bind_err (index p (- 1)) (\<lambda>last_line.
      Inr (name, parse_handedness last_line, mlb_id, ''P''))))"

definition Pitcher_init :: "node \<Rightarrow> error + Pitcher" where
  "Pitcher_init soup =
     (if \<not> is_valid_pitcher soup
      then Inr \<lparr>name = None, handedness = None, mlb_id = None, position = None\<rparr>
      else bind_err (Pitcher_parse soup) (\<lambda>(name, handedness, mlb_id, position).
           Inr \<lparr>name = Some name, handedness = Some handedness, mlb_id = Some mlb_id,
                position = Some position\<rparr>))"


section \<open>Records\<close>

text \<open>
  A flat record is a Python dictionary from field names to scalars. \<open>{**a, **b}\<close> is
  \<open>a ++ b\<close>: where both have a key, the right one wins. A string value is the list of
  its code points.
\<close>

datatype pyval = PyNone | PyInt int | PyStr "nat list" | PyBool bool

type_synonym row = "string \<rightharpoonup> pyval"

definition int_or_none :: "int option \<Rightarrow> pyval" where
  "int_or_none v = (case v of None \<Rightarrow> PyNone | Some n \<Rightarrow> PyInt n)"

definition str_or_none :: "string option \<Rightarrow> pyval" where
  "str_or_none v = (case v of None \<Rightarrow> PyNone | Some s \<Rightarrow> PyStr (codes s))"

definition Player_record :: "'a Player_scheme \<Rightarrow> row" where
  "Player_record self =
     [''ID'' \<mapsto> int_or_none (mlb_id self),
      ''Name'' \<mapsto> str_or_none (name self),
      ''Handedness'' \<mapsto> str_or_none (handedness self)]"

definition Batter_record :: "Batter \<Rightarrow> row" where
  "Batter_record self =
     Player_record self ++
     [''Position'' \<mapsto> PyStr (codes (Batter.position self)),
      ''Order'' \<mapsto> int_or_none (order self)]"

definition Pitcher_record :: "Pitcher \<Rightarrow> row" where
  "Pitcher_record self =
     Player_record self ++ [''Position'' \<mapsto> str_or_none (Pitcher.position self)]"

section \<open>Team Extractor\<close>

text \<open>
  \<open>Team\<close> defines no equality of its own, so \<open>==\<close> on two teams compares the objects'
  identities. The field \<open>ident\<close> is that identity; \<open>team_abbreviation\<close> is the
  attribute \<open>abbreviation\<close>.
\<close>

record Team =
  ident :: nat
  name :: string
  team_abbreviation :: "nat list"
  pitcher :: Pitcher
  rotation :: "Batter list"

text \<open>The bundle of regions a team is parsed from: the dictionary with the keys
  \<open>ids\<close>, \<open>pitcher\<close> and \<open>rotation\<close>.\<close>

record team_dict =
  ids_html :: node
  pitcher_html :: node
  rotation_html :: node

definition is_valid_rotation :: "node \<Rightarrow> bool" where
  "is_valid_rotation container \<longleftrightarrow> \<not> contains ''no lineup released'' (lower (get_text container))"

definition Team_parse_abbreviation :: "node \<Rightarrow> error + nat list" where
  "Team_parse_abbreviation container =
     bind_err (not_none (select_one_tag ''a'' container)) (\<lambda>a.
     bind_err (not_none (attrs_get ''href'' a)) (\<lambda>team_link.
     bind_err (index (split_on (CHR ''/'') team_link) (- 1)) (\<lambda>seg.
     Inr (upper seg))))"

definition Team_parse_name :: "node \<Rightarrow> error + string" where
  "Team_parse_name container =
     bind_err (not_none (select_one_tag ''div'' container)) (\<lambda>d.
     Inr (strip (get_text d)))"

text \<open>
  The loop of \<open>_parse_rotation\<close>. Its state is the list built so far and the loop
  variable \<open>batter\<close>, which is unbound until the body has run once.
\<close>

fun rotation_loop ::
  "node list \<Rightarrow> Batter list \<Rightarrow> Batter option \<Rightarrow> error + (Batter list \<times> Batter option)" where
  "rotation_loop [] rot batter = Inr (rot, batter)"
| "rotation_loop (p # ps) rot batter =
     bind_err (Batter_init p) (\<lambda>b. rotation_loop ps (rot @ [b]) (Some b))"

definition Team_parse_rotation :: "node \<Rightarrow> error + Batter list" where
  "Team_parse_rotation container =
     (if is_valid_rotation container then
        bind_err (rotation_loop (select_class ''player'' container) [] None)
          (\<lambda>(rotation, batter).
             case batter of
               None \<Rightarrow> Inl UnboundLocalError
             | Some b \<Rightarrow> Inr (rotation @ [b]))
      else Inr [])"

definition Team_parse ::
  "team_dict \<Rightarrow> error + (string \<times> nat list \<times> Pitcher \<times> Batter list)" where
  "Team_parse td =
     bind_err (Team_parse_name (ids_html td)) (\<lambda>name.
     bind_err (Team_parse_abbreviation (ids_html td)) (\<lambda>abbreviation.
     bind_err (Pitcher_init (pitcher_html td)) (\<lambda>pitcher.
     bind_err (Team_parse_rotation (rotation_html td)) (\<lambda>rotation.
     Inr (name, abbreviation, pitcher, rotation)))))"

text \<open>The constructor; \<open>i\<close> is the identity of the object being built.\<close>

definition Team_init :: "nat \<Rightarrow> team_dict \<Rightarrow> error + Team" where
  "Team_init i td =
     bind_err (Team_parse td) (\<lambda>(name, abbreviation, pitcher, rotation).
     Inr \<lparr>ident = i, name = name, team_abbreviation = abbreviation,
          pitcher = pitcher, rotation = rotation\<rparr>)"

definition Team_add_record :: "Team \<Rightarrow> row \<Rightarrow> row" where
  "Team_add_record self player_record =
     [''Team Name'' \<mapsto> PyStr (codes (Team.name self)),
      ''Team Abbreviation'' \<mapsto> PyStr (team_abbreviation self)] ++ player_record"

definition Team_records :: "Team \<Rightarrow> row list" where
  "Team_records self =
     (let rs = [];
          rs = rs @ [Pitcher_record (pitcher self)];
          rs = rs @ map Batter_record (rotation self)
      in map (Team_add_record self) rs)"

section \<open>Game Extractor\<close>

text \<open>The attribute \<open>raw\<close> of a game, the card's markup printed again, is read by
  nothing and is left out; so are the progress messages the scraper prints.\<close>

record Game =
  home :: Team
  away :: Team
  time :: string
  farenheit :: "int option"
  precipitation :: "int option"

text \<open>The merged bundle of regions of one game card.\<close>

record object_html =
  time_html :: node
  farenheit_html :: node
  precipitation_html :: node
  home_dict :: team_dict
  away_dict :: team_dict

definition Game_parse_time :: "node \<Rightarrow> error + string" where
  "Game_parse_time container =
     bind_err (index (select_tag ''div'' container) (- 1)) (\<lambda>d.
     Inr (strip (get_text d)))"

definition Game_parse_farenheit :: "node \<Rightarrow> error + int option" where
  "Game_parse_farenheit d = extract_int (get_text d)"

definition Game_parse_precipitation :: "node \<Rightarrow> error + int option" where
  "Game_parse_precipitation d = extract_int (get_text d)"

text \<open>The header yields the time column and, for each side, its identity column and
  its pitcher region.\<close>

definition Game_parse_header ::
  "node option \<Rightarrow> error + (node \<times> (node \<times> node) \<times> (node \<times> node))" where
  "Game_parse_header html_opt =
     bind_err (not_none html_opt) (\<lambda>html.
     let rows = select_class ''row'' html in
     bind_err (index rows 0) (\<lambda>teams_and_gametime.
     let cols = select_class ''col'' teams_and_gametime in
     bind_err (index cols 1) (\<lambda>gametime.
     bind_err (index cols 0) (\<lambda>home_ids.
     bind_err (index cols (- 1)) (\<lambda>away_ids.
     bind_err (index rows 1) (\<lambda>row1.
     bind_err (unpack2 (select_class ''player'' row1)) (\<lambda>(home_pitcher, away_pitcher).
     Inr (gametime, (home_ids, home_pitcher), (away_ids, away_pitcher)))))))))"

definition Game_parse_body :: "node option \<Rightarrow> error + (node \<times> node)" where
  "Game_parse_body html_opt =
     bind_err (not_none html_opt) (\<lambda>html.
     unpack2 (select_class ''col'' html))"

definition Game_parse_footer :: "node option \<Rightarrow> error + (node \<times> node)" where
  "Game_parse_footer html_opt =
     bind_err (not_none html_opt) (\<lambda>html.
     bind_err (not_none (select_one_class ''col-8'' html)) (\<lambda>col.
     let divs = select_tag ''div'' col in
     bind_err (index divs 0) (\<lambda>d0.
     bind_err (index divs 1) (\<lambda>d1.
     Inr (d0, d1)))))"

definition extract_object_html :: "node \<Rightarrow> error + object_html" where
  "extract_object_html soup =
     (let game_header = select_one_class ''lineup-card-header'' soup;
          game_body = select_one_class ''lineup-card-body'' soup;
          game_footer = select_one_class ''lineup-card-footer'' soup
      in
      bind_err (Game_parse_header game_header)
        (\<lambda>(gametime, (home_ids, home_pitcher), (away_ids, away_pitcher)).
      bind_err (Game_parse_body game_body) (\<lambda>(home_rotation, away_rotation).
      bind_err (Game_parse_footer game_footer) (\<lambda>(d0, d1).
      Inr \<lparr>time_html = gametime, farenheit_html = d0, precipitation_html = d1,
           home_dict = \<lparr>ids_html = home_ids, pitcher_html = home_pitcher,
                        rotation_html = home_rotation\<rparr>,
           away_dict = \<lparr>ids_html = away_ids, pitcher_html = away_pitcher,
                        rotation_html = away_rotation\<rparr>\<rparr>))))"

text \<open>\<open>_parse_teams\<close> builds two objects, one after the other: two identities.\<close>

definition Game_parse_teams :: "object_html \<Rightarrow> error + (Team \<times> Team)" where
  "Game_parse_teams oh =
     bind_err (Team_init 0 (home_dict oh)) (\<lambda>t0.
     bind_err (Team_init 1 (away_dict oh)) (\<lambda>t1.
     Inr (t0, t1)))"

definition Game_parse_game :: "object_html \<Rightarrow> error + (string \<times> int option \<times> int option)" where
  "Game_parse_game oh =
     bind_err (Game_parse_time (time_html oh)) (\<lambda>time.
     bind_err (Game_parse_farenheit (farenheit_html oh)) (\<lambda>farenheit.
     bind_err (Game_parse_precipitation (precipitation_html oh)) (\<lambda>precipitation.
     Inr (time, farenheit, precipitation))))"

definition Game_parse ::
  "node \<Rightarrow> error + (Team \<times> Team \<times> string \<times> int option \<times> int option)" where
  "Game_parse soup =
     bind_err (extract_object_html soup) (\<lambda>oh.
     bind_err (Game_parse_teams oh) (\<lambda>(home, away).
     bind_err (Game_parse_game oh) (\<lambda>(time, farenheit, precipitation).
     Inr (home, away, time, farenheit, precipitation))))"

definition Game_init :: "node \<Rightarrow> error + Game" where
  "Game_init soup =
     bind_err (Game_parse soup) (\<lambda>(home, away, time, farenheit, precipitation).
     Inr \<lparr>home = home, away = away, time = time, farenheit = farenheit,
          precipitation = precipitation\<rparr>)"

definition Game_add_record :: "Game \<Rightarrow> row \<Rightarrow> Team \<Rightarrow> bool \<Rightarrow> row" where
  "Game_add_record self team_record opp is_home =
     [''Time'' \<mapsto> PyStr (codes (time self)),
      ''Farenheit'' \<mapsto> int_or_none (farenheit self),
      ''Precipitation'' \<mapsto> int_or_none (precipitation self),
      ''Is Home'' \<mapsto> PyBool is_home,
      ''Opponent Name'' \<mapsto> PyStr (codes (Team.name opp)),
      ''Opponent Abbreviation'' \<mapsto> PyStr (team_abbreviation opp)] ++ team_record"

definition add_team_records :: "Game \<Rightarrow> Team \<Rightarrow> Team \<Rightarrow> row list" where
  "add_team_records self team opp =
     map (\<lambda>r. Game_add_record self r opp (ident team = ident (home self))) (Team_records team)"

definition Game_records :: "Game \<Rightarrow> row list" where
  "Game_records self =
     (let rs = [];
          rs = rs @ add_team_records self (home self) (away self);
          rs = rs @ add_team_records self (away self) (home self)
      in rs)"

section \<open>Document Extractor\<close>

text \<open>
  \<open>raw\<close> stands for the tree that \<open>_gen_soup(self.raw)\<close> builds; \<open>priv_records\<close> is the
  attribute \<open>_records\<close>.
\<close>

record DateGames =
  date :: string
  games :: "Game list"
  priv_records :: "row list"
  raw :: node

definition validate_games :: "node list \<Rightarrow> node list" where
  "validate_games gs = filter (\<lambda>g. attrs_get ''data-league'' g \<noteq> None) gs"

fun find_games_loop :: "node list \<Rightarrow> node list" where
  "find_games_loop [] = []"
| "find_games_loop (c # cs) =
     (case select_one_class ''lineups'' c of
        Some games_container \<Rightarrow> validate_games (select_class ''lineup-col'' games_container)
      | None \<Rightarrow> find_games_loop cs)"

definition find_games :: "node \<Rightarrow> node list" where
  "find_games soup = find_games_loop (select_child ''ccm-page'' ''container'' soup)"

fun scrape_games_loop :: "node list \<Rightarrow> Game list \<Rightarrow> error + Game list" where
  "scrape_games_loop [] gs = Inr gs"
| "scrape_games_loop (gc # gcs) gs =
     bind_err (Game_init gc) (\<lambda>game. scrape_games_loop gcs (gs @ [game]))"

definition scrape_games :: "node list \<Rightarrow> error + Game list" where
  "scrape_games game_containers = scrape_games_loop game_containers []"

text \<open>\<open>parse\<close> returns the games and may store them on the object.\<close>

definition DateGames_parse :: "DateGames \<Rightarrow> error + (Game list \<times> DateGames)" where
  "DateGames_parse self =
     (let game_containers = find_games (raw self) in
      if game_containers = [] then Inl (ValueError no_games_msg)
      else bind_err (scrape_games game_containers) (\<lambda>gs.
           Inr (gs, if games self = [] then self\<lparr>games := gs\<rparr> else self)))"

text \<open>
  The constructor. Fetching the page is outside the model: the parsed page \<open>soup\<close> and
  today's date \<open>today\<close> are given.
\<close>

definition DateGames_init :: "string \<Rightarrow> string \<Rightarrow> node \<Rightarrow> bool \<Rightarrow> error + DateGames" where
  "DateGames_init date_str today soup parse =
     (let self = \<lparr>date = (if date_str \<noteq> [] then date_str else today),
                   games = [], priv_records = [], raw = soup\<rparr>
      in if parse
         then bind_err (DateGames_parse self) (\<lambda>(gs, self'). Inr (self'\<lparr>games := gs\<rparr>))
         else Inr self)"

section \<open>Record Flattener\<close>

text \<open>\<open>records\<close> returns the records and the object with its cache filled.\<close>

definition DateGames_records :: "DateGames \<Rightarrow> row list \<times> DateGames" where
  "DateGames_records self =
     (if priv_records self \<noteq> [] then (priv_records self, self)
      else
        (let records = concat (map Game_records (games self));
             records = map (\<lambda>r. r(''Date'' \<mapsto> PyStr (codes (date self)))) records
         in (records, self\<lparr>priv_records := records\<rparr>)))"


section \<open>Notions the properties are stated with\<close>

text \<open>
  The game cards of a document: the cards of the first lineups section found, before
  the cards without a league marker are dropped. \<open>find_games\<close> keeps the marked ones.
\<close>

fun game_cards_loop :: "node list \<Rightarrow> node list" where
  "game_cards_loop [] = []"
| "game_cards_loop (c # cs) =
     (case select_one_class ''lineups'' c of
        Some games_container \<Rightarrow> select_class ''lineup-col'' games_container
      | None \<Rightarrow> game_cards_loop cs)"

definition game_cards :: "node \<Rightarrow> node list" where
  "game_cards soup = game_cards_loop (select_child ''ccm-page'' ''container'' soup)"




text \<open>
  The flat record of one player of \<open>team\<close> in game \<open>g\<close> against \<open>opp\<close>: the player's own
  fields together with the fields of the team and of the game.
\<close>

definition combined_record :: "Game \<Rightarrow> Team \<Rightarrow> Team \<Rightarrow> bool \<Rightarrow> row \<Rightarrow> row" where
  "combined_record g team opp is_home player =
     player(''Team Name'' \<mapsto> PyStr (codes (Team.name team)),
            ''Team Abbreviation'' \<mapsto> PyStr (team_abbreviation team),
            ''Time'' \<mapsto> PyStr (codes (time g)),
            ''Farenheit'' \<mapsto> int_or_none (farenheit g),
            ''Precipitation'' \<mapsto> int_or_none (precipitation g),
            ''Is Home'' \<mapsto> PyBool is_home,
            ''Opponent Name'' \<mapsto> PyStr (codes (Team.name opp)),
            ''Opponent Abbreviation'' \<mapsto> PyStr (team_abbreviation opp))"

text \<open>The player records of a team before any context is added: pitcher, then rotation.\<close>

definition player_records :: "Team \<Rightarrow> row list" where
  "player_records t = Pitcher_record (pitcher t) # map Batter_record (rotation t)"

text \<open>
  What a malformed game card can raise: a method called on a missing region, an index
  past the end, a wrong number of regions to unpack, a league ID that is missing or not
  a number, a number of more digits than \<open>int\<close> converts, the unbound loop variable of an
  empty rotation.
\<close>

definition malformed_card_errors :: "error set" where
  "malformed_card_errors =
     {AttributeError, IndexError, TypeError, UnboundLocalError,
      ValueError not_enough_msg, ValueError too_many_msg, ValueError invalid_literal_msg,
      ValueError exceeds_limit_msg}"

section \<open>A sample page\<close>

text \<open>
  One game card: the home side has an announced pitcher and one batter, the away side an
  unannounced pitcher and no lineup yet. A second card of the same class carries no
  league marker.
\<close>

definition sample_pitcher :: node where
  "sample_pitcher =
     Elem ''div'' [''player''] []
       [Elem ''a'' [] [(''data-mlb'', ''543037'')] [Text ''Gerrit Cole''],
        Text (CHR 0x0A # ''(R)'')]"

definition sample_tbd :: node where
  "sample_tbd = Elem ''div'' [''player''] [] [Text ''TBD'']"

definition sample_batter :: node where
  "sample_batter =
     Elem ''div'' [''player''] []
       [Text ''1. '',
        Elem ''a'' [] [(''data-mlb'', ''518934'')] [Text ''DJ LeMahieu''],
        Text (CHR 0x0A # ''(R) 2B'')]"

definition sample_unordered_batter :: node where
  "sample_unordered_batter =
     Elem ''div'' [''player''] []
       [Elem ''a'' [] [(''data-mlb'', ''592450'')] [Text ''Aaron Judge''],
        Text (CHR 0x0A # ''(R) RF'')]"




definition sample_home_ids :: node where
  "sample_home_ids =
     Elem ''div'' [''col''] []
       [Elem ''a'' [] [(''href'', ''/team/nyy'')] [Elem ''div'' [] [] [Text '' Yankees '']]]"

definition sample_away_ids :: node where
  "sample_away_ids =
     Elem ''div'' [''col''] []
       [Elem ''a'' [] [(''href'', ''/team/bos'')] [Elem ''div'' [] [] [Text ''Red Sox'']]]"

definition sample_time :: node where
  "sample_time = Elem ''div'' [''col''] [] [Elem ''div'' [] [] [Text ''7:05 pm'']]"

definition sample_rotation :: node where
  "sample_rotation = Elem ''div'' [''col''] [] [sample_batter]"

definition sample_unreleased :: node where
  "sample_unreleased = Elem ''div'' [''col''] [] [Text ''No Lineup Released'']"

definition sample_empty_rotation :: node where
  "sample_empty_rotation = Elem ''div'' [''col''] [] [Text ''Lineup'']"

definition sample_card :: node where
  "sample_card =
     Elem ''div'' [''lineup-col''] [(''data-league'', ''MLB'')]
       [Elem ''div'' [''lineup-card-header''] []
          [Elem ''div'' [''row''] [] [sample_home_ids, sample_time, sample_away_ids],
           Elem ''div'' [''row''] [] [sample_pitcher, sample_tbd]],
        Elem ''div'' [''lineup-card-body''] [] [sample_rotation, sample_unreleased],
        Elem ''div'' [''lineup-card-footer''] []
          [Elem ''div'' [''col-8''] []
             [Elem ''div'' [] [] [Text ''72 F''], Elem ''div'' [] [] [Text ''Rain'']]]]"

definition sample_ad :: node where
  "sample_ad = Elem ''div'' [''lineup-col''] [] [Text ''Subscribe'']"

definition sample_page :: "node list \<Rightarrow> node" where
  "sample_page cards =
     soup_root
       [Elem ''div'' [''ccm-page''] []
          [Elem ''div'' [''container''] [] [Elem ''div'' [''lineups''] [] cards]]]"

definition sample_away_dict :: team_dict where
  "sample_away_dict =
     \<lparr>ids_html = sample_away_ids, pitcher_html = sample_tbd,
      rotation_html = sample_unreleased\<rparr>"

definition sample_cole :: Pitcher where
  "sample_cole =
     \<lparr>Player.name = Some ''Gerrit Cole'', handedness = Some ''R'', mlb_id = Some 543037,
      Pitcher.position = Some ''P''\<rparr>"

definition sample_placeholder :: Pitcher where
  "sample_placeholder =
     \<lparr>Player.name = None, handedness = None, mlb_id = None, Pitcher.position = None\<rparr>"

definition sample_lemahieu :: Batter where
  "sample_lemahieu =
     \<lparr>Player.name = Some ''DJ LeMahieu'', handedness = Some ''R'', mlb_id = Some 518934,
      order = Some 1, Batter.position = ''2B''\<rparr>"

definition sample_game :: Game where
  "sample_game =
     \<lparr>home = \<lparr>ident = 0, name = ''Yankees'', team_abbreviation = codes ''NYY'',
               pitcher = sample_cole, rotation = [sample_lemahieu, sample_lemahieu]\<rparr>,
      away = \<lparr>ident = 1, name = ''Red Sox'', team_abbreviation = codes ''BOS'',
               pitcher = sample_placeholder, rotation = []\<rparr>,
      time = ''7:05 pm'', farenheit = Some 72, precipitation = None\<rparr>"

definition sample_dategames :: DateGames where
  "sample_dategames =
     \<lparr>date = ''2021-03-17'', games = [sample_game], priv_records = [],
      raw = sample_page [sample_card, sample_ad]\<rparr>"


definition sample_malformed_card :: node where
  "sample_malformed_card =
     Elem ''div'' [''lineup-col''] [(''data-league'', ''MLB'')] [Text ''Postponed'']"

text \<open>The object as the constructor has it when it calls \<open>parse\<close>.\<close>

definition sample_self :: "node \<Rightarrow> DateGames" where
  "sample_self soup = \<lparr>date = ''2021-03-17'', games = [], priv_records = [], raw = soup\<rparr>"

section \<open>Auxiliary facts\<close>

lemma bind_err_Inr: "bind_err m f = Inr y \<longleftrightarrow> (\<exists>x. m = Inr x \<and> f x = Inr y)"
  by (cases m) auto

lemma bind_err_Inl: "bind_err m f = Inl e \<longleftrightarrow> m = Inl e \<or> (\<exists>x. m = Inr x \<and> f x = Inl e)"
  by (cases m) auto

text \<open>\<open>contains\<close> is the substring test.\<close>

lemma contains_iff: "contains needle haystack \<longleftrightarrow> (\<exists>ps ss. haystack = ps @ needle @ ss)"
proof
  assume "contains needle haystack"
  then obtain i where "prefix needle (drop i haystack)"
    by (auto simp: contains_def)
  then obtain ss where "drop i haystack = needle @ ss" by (auto simp: prefix_def)
  then have "haystack = take i haystack @ needle @ ss"
    by (metis append_take_drop_id)
  then show "\<exists>ps ss. haystack = ps @ needle @ ss" by blast
next
  assume "\<exists>ps ss. haystack = ps @ needle @ ss"
  then obtain ps ss where h: "haystack = ps @ needle @ ss" by blast
  have "length ps \<in> set (upt 0 (Suc (length haystack)))" using h by simp
  moreover have "prefix needle (drop (length ps) haystack)" using h by simp
  ultimately show "contains needle haystack" unfolding contains_def by blast
qed

lemma lower_append: "lower (a @ b) = lower a @ lower b"
  by (simp add: lower_def)

lemma rotation_loop_shape:
  "rotation_loop ps rot b = Inr (rot', b') \<Longrightarrow>
     (\<exists>bs. length bs = length ps \<and> rot' = rot @ bs \<and>
        list_all2 (\<lambda>p x. Batter_init p = Inr x) ps bs \<and>
        b' = (if ps = [] then b else Some (last bs)))"
proof (induction ps arbitrary: rot b)
  case Nil then show ?case by simp
next
  case (Cons p ps)
  then obtain x where x: "Batter_init p = Inr x"
    and r: "rotation_loop ps (rot @ [x]) (Some x) = Inr (rot', b')"
    by (auto simp: bind_err_Inr)
  from Cons.IH [OF r] obtain bs where bs: "length bs = length ps" "rot' = (rot @ [x]) @ bs"
    "list_all2 (\<lambda>p x. Batter_init p = Inr x) ps bs"
    "b' = (if ps = [] then Some x else Some (last bs))" by blast
  show ?case
    by (rule exI [of _ "x # bs"]) (use bs x in auto)
qed

subsection \<open>Digits\<close>

lemma is_digit_not_sign: "is_digit c \<Longrightarrow> c \<noteq> CHR ''-'' \<and> c \<noteq> CHR ''+''"
  by (auto simp: is_digit_def)

lemma digit_not_int_space: "is_digit c \<Longrightarrow> \<not> is_int_space c"
  by (auto simp: is_digit_def is_int_space_def)

lemma digits_us_digits:
  "\<forall>c \<in> set ds. is_digit c \<Longrightarrow> prev \<or> ds \<noteq> [] \<Longrightarrow>
   digits_us prev acc ds = Some (foldl (\<lambda>a c. 10 * a + digit_val c) acc ds)"
  by (induction ds arbitrary: prev acc) auto

lemma decimal_value_Cons:
  "decimal_value (d # ds) = digit_val d * 10 ^ length ds + decimal_value ds"
  unfolding decimal_value_def
  by (simp add: sum.lessThan_Suc_shift del: sum.lessThan_Suc)

lemma foldl_decimal:
  "foldl (\<lambda>a c. 10 * a + digit_val c) acc ds = acc * 10 ^ length ds + decimal_value ds"
proof (induction ds arbitrary: acc)
  case Nil then show ?case by (simp add: decimal_value_def)
next
  case (Cons d ds)
  then show ?case by (simp add: decimal_value_Cons algebra_simps)
qed

lemma decimal_value_foldl: "decimal_value ds = foldl (\<lambda>a c. 10 * a + digit_val c) 0 ds"
  by (simp add: foldl_decimal)

lemma scan_of_digits:
  assumes "\<forall>c \<in> set ds. is_digit c"
  shows "takeWhile digit_or_us ds = ds" "dropWhile digit_or_us ds = []" "filter is_digit ds = ds"
  using assms by (simp_all add: digit_or_us_def)

text \<open>\<open>int\<close> on a run of digits: its value, unless the run is longer than the limit.\<close>

lemma py_int_digits:
  assumes "ds \<noteq> []" "\<forall>c \<in> set ds. is_digit c"
  shows "py_int ds =
    (if int_max_str_digits < length ds then Inl (ValueError exceeds_limit_msg)
     else Inr (decimal_value ds))"
proof -
  obtain c cs where ds: "ds = c # cs" using assms(1) by (cases ds) auto
  then have c: "is_digit c" using assms(2) by simp
  then have ns: "c \<noteq> CHR ''-''" "c \<noteq> CHR ''+''" "\<not> is_int_space c"
    using is_digit_not_sign digit_not_int_space by auto
  have d: "digits_us False 0 ds = Some (decimal_value ds)"
    using digits_us_digits[OF assms(2), of False 0] assms(1) by (simp add: foldl_decimal)
  have t: "dropWhile is_int_space ds = c # cs" using ds ns by simp
  have sc: "takeWhile digit_or_us (c # cs) = ds" "dropWhile digit_or_us (c # cs) = []"
    "filter is_digit ds = ds"
    using scan_of_digits [OF assms(2)] ds by simp_all
  show ?thesis
    unfolding py_int_def Let_def t using ns
    by (simp add: sc d del: digits_us.simps takeWhile.simps dropWhile.simps filter.simps)
qed

lemma re_search_none: "(re_search_digits s = None) = (\<forall>c \<in> set s. \<not> is_digit c)"
  by (induction s) auto

lemma re_search_run:
  assumes "\<forall>c \<in> set pre. \<not> is_digit c" "run \<noteq> []" "\<forall>c \<in> set run. is_digit c"
    "post = [] \<or> \<not> is_digit (hd post)"
  shows "re_search_digits (pre @ run @ post) = Some run"
  using assms(1)
proof (induction pre)
  case Nil
  obtain c cs where r: "run = c # cs" using assms(2) by (cases run) auto
  have "takeWhile is_digit (cs @ post) = cs"
    using assms(3,4) r by (cases post) auto
  then show ?case using r assms(3) by simp
next
  case (Cons a pre) then show ?case by simp
qed

lemma re_search_some:
  "re_search_digits s = Some m \<Longrightarrow> m \<noteq> [] \<and> (\<forall>c \<in> set m. is_digit c)"
  by (induction s) (auto split: if_splits dest: set_takeWhileD)

lemma extract_int_run:
  assumes "\<forall>c \<in> set pre. \<not> is_digit c" "run \<noteq> []" "\<forall>c \<in> set run. is_digit c"
    "post = [] \<or> \<not> is_digit (hd post)"
  shows "extract_int (pre @ run @ post) =
    (if int_max_str_digits < length run then Inl (ValueError exceeds_limit_msg)
     else Inr (Some (decimal_value run)))"
  using re_search_run [OF assms] py_int_digits [OF assms(2,3)]
  by (simp add: extract_int_def)

subsection \<open>\<open>int\<close> and the grammar of numeric values\<close>


















lemma py_int_Inl:
  "py_int v = Inl e \<Longrightarrow> e = ValueError invalid_literal_msg \<or> e = ValueError exceeds_limit_msg"
  by (auto simp: py_int_def Let_def split: option.splits prod.splits if_splits)





subsection \<open>Errors of a game card\<close>

lemma not_none_err: "not_none v = Inl e \<Longrightarrow> e \<in> malformed_card_errors"
  by (auto simp: not_none_def malformed_card_errors_def split: option.splits)

lemma index_err: "index xs i = Inl e \<Longrightarrow> e \<in> malformed_card_errors"
  by (auto simp: index_def malformed_card_errors_def split: if_splits)

lemma unpack2_err: "unpack2 xs = Inl e \<Longrightarrow> e \<in> malformed_card_errors"
  by (cases xs rule: unpack2.cases) (auto simp: malformed_card_errors_def)

lemma py_int_err: "py_int s = Inl e \<Longrightarrow> e \<in> malformed_card_errors"
  using py_int_Inl [of s e] by (auto simp: malformed_card_errors_def)

lemma extract_int_err: "extract_int s = Inl e \<Longrightarrow> e \<in> malformed_card_errors"
  by (auto simp: extract_int_def bind_err_Inl split: option.splits dest: py_int_err)

lemma py_int_opt_err: "py_int_opt v = Inl e \<Longrightarrow> e \<in> malformed_card_errors"
  by (cases v) (auto simp: py_int_opt_def malformed_card_errors_def dest: py_int_err)

lemma Player_parse_err: "Player_parse c = Inl e \<Longrightarrow> e \<in> malformed_card_errors"
  by (auto simp: Player_parse_def Let_def bind_err_Inl dest: not_none_err py_int_opt_err)

lemma Batter_init_err: "Batter_init c = Inl e \<Longrightarrow> e \<in> malformed_card_errors"
  by (auto simp: Batter_init_def Batter_parse_def Let_def bind_err_Inl
      dest: index_err unpack2_err Player_parse_err extract_int_err)

lemma Pitcher_init_err: "Pitcher_init c = Inl e \<Longrightarrow> e \<in> malformed_card_errors"
  by (auto simp: Pitcher_init_def Pitcher_parse_def Let_def bind_err_Inl
      dest: index_err Player_parse_err split: if_splits)

lemma rotation_loop_err:
  "rotation_loop ps rot b = Inl e \<Longrightarrow> e \<in> malformed_card_errors"
  by (induction ps arbitrary: rot b) (auto simp: bind_err_Inl dest: Batter_init_err)

lemma Team_parse_rotation_err:
  "Team_parse_rotation c = Inl e \<Longrightarrow> e \<in> malformed_card_errors"
  by (auto simp: Team_parse_rotation_def bind_err_Inl malformed_card_errors_def
      dest: rotation_loop_err [unfolded malformed_card_errors_def] split: if_splits option.splits)

lemma Team_parse_name_err: "Team_parse_name c = Inl e \<Longrightarrow> e \<in> malformed_card_errors"
  by (auto simp: Team_parse_name_def bind_err_Inl dest: not_none_err)

lemma Team_parse_abbreviation_err:
  "Team_parse_abbreviation c = Inl e \<Longrightarrow> e \<in> malformed_card_errors"
  by (auto simp: Team_parse_abbreviation_def bind_err_Inl dest: not_none_err index_err)

lemma Team_init_err: "Team_init i td = Inl e \<Longrightarrow> e \<in> malformed_card_errors"
  by (auto simp: Team_init_def Team_parse_def bind_err_Inl
      dest: Team_parse_name_err Team_parse_abbreviation_err Pitcher_init_err
        Team_parse_rotation_err)

lemma Game_parse_header_err: "Game_parse_header h = Inl e \<Longrightarrow> e \<in> malformed_card_errors"
  by (auto simp: Game_parse_header_def Let_def bind_err_Inl
      dest: not_none_err index_err unpack2_err)

lemma Game_parse_body_err: "Game_parse_body h = Inl e \<Longrightarrow> e \<in> malformed_card_errors"
  by (auto simp: Game_parse_body_def bind_err_Inl dest: not_none_err unpack2_err)

lemma Game_parse_footer_err: "Game_parse_footer h = Inl e \<Longrightarrow> e \<in> malformed_card_errors"
  by (auto simp: Game_parse_footer_def Let_def bind_err_Inl dest: not_none_err index_err)

lemma extract_object_html_err:
  "extract_object_html c = Inl e \<Longrightarrow> e \<in> malformed_card_errors"
  by (auto simp: extract_object_html_def Let_def bind_err_Inl
      dest: Game_parse_header_err Game_parse_body_err Game_parse_footer_err)

lemma Game_parse_teams_err: "Game_parse_teams oh = Inl e \<Longrightarrow> e \<in> malformed_card_errors"
  by (auto simp: Game_parse_teams_def bind_err_Inl dest: Team_init_err)

lemma Game_parse_game_err: "Game_parse_game oh = Inl e \<Longrightarrow> e \<in> malformed_card_errors"
  by (auto simp: Game_parse_game_def Game_parse_time_def Game_parse_farenheit_def
      Game_parse_precipitation_def bind_err_Inl dest: index_err extract_int_err)

lemma Game_init_err: "Game_init c = Inl e \<Longrightarrow> e \<in> malformed_card_errors"
  by (auto simp: Game_init_def Game_parse_def bind_err_Inl
      dest: extract_object_html_err Game_parse_teams_err Game_parse_game_err)

lemma scrape_games_loop_err:
  "scrape_games_loop gcs acc = Inl e \<Longrightarrow> e \<in> malformed_card_errors"
  by (induction gcs arbitrary: acc) (auto simp: bind_err_Inl dest: Game_init_err)

lemma no_games_not_malformed: "ValueError no_games_msg \<notin> malformed_card_errors"
  by (simp add: malformed_card_errors_def no_games_msg_def not_enough_msg_def
      too_many_msg_def invalid_literal_msg_def exceeds_limit_msg_def)

lemma find_games_loop_cards: "find_games_loop cs = validate_games (game_cards_loop cs)"
  by (induction cs) (auto simp: validate_games_def split: option.splits)

lemma find_games_cards: "find_games soup = validate_games (game_cards soup)"
  by (simp add: find_games_def game_cards_def find_games_loop_cards)

lemma validate_games_empty:
  "validate_games cs = [] \<longleftrightarrow> (\<forall>c \<in> set cs. attrs_get ''data-league'' c = None)"
  by (auto simp: validate_games_def filter_empty_conv)

subsection \<open>Counting and combining records\<close>

lemma scrape_games_loop_length:
  "scrape_games_loop gcs acc = Inr gs \<Longrightarrow> length gs = length acc + length gcs"
  by (induction gcs arbitrary: acc) (auto simp: bind_err_Inr)

lemma length_Team_records: "length (Team_records t) = length (rotation t) + 1"
  by (simp add: Team_records_def Let_def)

lemma length_Game_records:
  "length (Game_records g) = (length (rotation (home g)) + 1) + (length (rotation (away g)) + 1)"
  by (simp add: Game_records_def add_team_records_def Let_def length_Team_records)

lemma DateGames_init_state:
  assumes "DateGames_init date_str today soup True = Inr dg"
  shows "priv_records dg = [] \<and> games dg \<noteq> [] \<and> scrape_games (find_games soup) = Inr (games dg)
         \<and> date dg = (if date_str \<noteq> [] then date_str else today)"
proof -
  let ?self = "\<lparr>date = (if date_str \<noteq> [] then date_str else today),
                   games = [], priv_records = [], raw = soup\<rparr>"
  from assms obtain gs self' where p: "DateGames_parse ?self = Inr (gs, self')"
    and dg: "dg = self'\<lparr>games := gs\<rparr>"
    by (auto simp: DateGames_init_def Let_def bind_err_Inr)
  from p have ne: "find_games soup \<noteq> []" and s: "scrape_games (find_games soup) = Inr gs"
    and self': "self' = ?self\<lparr>games := gs\<rparr>"
    by (auto simp: DateGames_parse_def Let_def bind_err_Inr split: if_splits)
  from s have "length gs = length (find_games soup)"
    using scrape_games_loop_length [of "find_games soup" "[]" gs] by (simp add: scrape_games_def)
  then have "gs \<noteq> []" using ne by auto
  then show ?thesis using dg self' s by simp
qed

lemma Game_init_idents:
  "Game_init soup = Inr g \<Longrightarrow> ident (home g) = 0 \<and> ident (away g) = 1"
  by (auto simp: Game_init_def Game_parse_def Game_parse_teams_def Team_init_def bind_err_Inr)

lemma Pitcher_record_combined:
  "Game_add_record g (Team_add_record t (Pitcher_record p)) opp b =
     combined_record g t opp b (Pitcher_record p)"
  by (rule ext)
    (simp add: Game_add_record_def Team_add_record_def combined_record_def
      Pitcher_record_def Player_record_def map_add_def)

lemma Batter_record_combined:
  "Game_add_record g (Team_add_record t (Batter_record p)) opp b =
     combined_record g t opp b (Batter_record p)"
  by (rule ext)
    (simp add: Game_add_record_def Team_add_record_def combined_record_def
      Batter_record_def Player_record_def map_add_def)

lemma add_team_records_combined:
  "add_team_records g t opp =
     map (combined_record g t opp (ident t = ident (home g))) (player_records t)"
  by (simp add: add_team_records_def Team_records_def player_records_def Let_def
      Pitcher_record_combined Batter_record_combined)

subsection \<open>The sample page, evaluated\<close>

lemma sample_find_games: "find_games (sample_page [sample_card, sample_ad]) = [sample_card]"
  by code_simp

lemma sample_scrape_games: "scrape_games [sample_card] = Inr [sample_game]"
  by code_simp

lemma sample_init:
  "DateGames_init ''2021-03-17'' ''2021-11-04'' (sample_page [sample_card, sample_ad]) True =
     Inr sample_dategames"
  by (simp add: DateGames_init_def DateGames_parse_def Let_def sample_find_games
      sample_scrape_games sample_dategames_def)

lemma sample_game_init: "Game_init sample_card = Inr sample_game"
  by code_simp

text \<open>From the constructor to \<open>records\<close>: one record per pitcher and per entry of a rotation.\<close>

lemma records_count_of_rotations:
  "DateGames_init date_str today soup True = Inr dg \<Longrightarrow>
     games dg \<noteq> [] \<and>
     length (fst (DateGames_records dg)) =
       (\<Sum>g \<leftarrow> games dg. (\<Sum>t \<leftarrow> [home g, away g]. (length (rotation t) + 1)))"
proof -
  assume a: "DateGames_init date_str today soup True = Inr dg"
  then have p: "priv_records dg = []" and g: "games dg \<noteq> []"
    using DateGames_init_state by blast+
  have "length (fst (DateGames_records dg)) = (\<Sum>g \<leftarrow> games dg. length (Game_records g))"
    using p by (simp add: DateGames_records_def Let_def length_concat comp_def)
  also have "\<dots> = (\<Sum>g \<leftarrow> games dg. (\<Sum>t \<leftarrow> [home g, away g]. (length (rotation t) + 1)))"
    by (simp add: length_Game_records)
  finally show ?thesis using g by simp
qed

section \<open>Placeholder pitchers\<close>

text \<open>
  C4. A pitcher region whose text contains \<open>TBD\<close> always yields a pitcher (no error),
  with name, league ID, handedness and position all absent; its record has exactly the
  keys ID, Name, Handedness and Position, each mapped to \<open>None\<close>.
\<close>

theorem tbd_pitcher_is_placeholder:
  "get_text soup = before @ ''TBD'' @ after \<Longrightarrow>
     (\<exists>p. Pitcher_init soup = Inr p \<and>
        Player.name p = None \<and> mlb_id p = None \<and> handedness p = None \<and>
        Pitcher.position p = None \<and>
        Pitcher_record p ''ID'' = Some PyNone \<and>
        Pitcher_record p ''Name'' = Some PyNone \<and>
        Pitcher_record p ''Handedness'' = Some PyNone \<and>
        Pitcher_record p ''Position'' = Some PyNone \<and>
        dom (Pitcher_record p) = {''ID'', ''Name'', ''Handedness'', ''Position''})"
proof -
  assume "get_text soup = before @ ''TBD'' @ after"
  then have "contains ''TBD'' (get_text soup)" unfolding contains_iff by blast
  then have "Pitcher_init soup =
      Inr \<lparr>Player.name = None, handedness = None, mlb_id = None, Pitcher.position = None\<rparr>"
    by (simp add: Pitcher_init_def is_valid_pitcher_def)
  then show ?thesis
    by (auto simp: Pitcher_record_def Player_record_def int_or_none_def str_or_none_def)
qed

theorem tbd_pitcher_is_placeholder_witness:
  "get_text sample_tbd = [] @ ''TBD'' @ [] \<and>
   (\<exists>p. Pitcher_init sample_tbd = Inr p \<and> Player.name p = None \<and>
      Pitcher_record p ''ID'' = Some PyNone)"
proof -
  have h: "get_text sample_tbd = [] @ ''TBD'' @ []" by (simp add: sample_tbd_def)
  show ?thesis using h tbd_pitcher_is_placeholder [OF h] by blast
qed

section \<open>The cache of records\<close>

text \<open>
  C6. Whatever a call of \<open>records\<close> returns, the call leaves the object in a state where
  the next call returns the same records and changes nothing more; the records returned
  are the ones now stored in the cache.
\<close>

theorem records_cached:
  "DateGames_records self = (rs, self') \<Longrightarrow>
     DateGames_records self' = (rs, self') \<and> priv_records self' = rs"
  by (auto simp: DateGames_records_def Let_def split: if_splits)

theorem records_cached_witness:
  "DateGames_records (snd (DateGames_records sample_dategames)) =
     DateGames_records sample_dategames \<and>
   length (fst (DateGames_records sample_dategames)) = 4"
proof -
  have l: "length (fst (DateGames_records sample_dategames)) = 4"
    by (simp add: DateGames_records_def sample_dategames_def Game_records_def
        add_team_records_def Team_records_def sample_game_def Let_def)
  show ?thesis
    using records_cached [of sample_dategames "fst (DateGames_records sample_dategames)"
        "snd (DateGames_records sample_dategames)"] l
    by simp
qed

section \<open>Rotations\<close>

text \<open>
  C5. When the text of a team's rotation region contains the words
  \<open>no lineup released\<close> in any mix of upper and lower case, rotation parsing returns the
  empty list, and a team built from such a region has an empty rotation and exactly one
  record, its pitcher's.
\<close>

theorem unreleased_rotation_is_empty:
  "lower marker = ''no lineup released'' \<Longrightarrow>
   get_text (rotation_html td) = before @ marker @ after \<Longrightarrow>
     Team_parse_rotation (rotation_html td) = Inr [] \<and>
     (\<forall>t. Team_init i td = Inr t \<longrightarrow>
        rotation t = [] \<and>
        Team_records t = [Team_add_record t (Pitcher_record (pitcher t))])"
proof -
  assume m: "lower marker = ''no lineup released''"
    and t: "get_text (rotation_html td) = before @ marker @ after"
  have "lower (get_text (rotation_html td)) =
      lower before @ ''no lineup released'' @ lower after"
    using m t by (simp add: lower_append)
  then have "contains ''no lineup released'' (lower (get_text (rotation_html td)))"
    unfolding contains_iff by blast
  then have r: "Team_parse_rotation (rotation_html td) = Inr []"
    by (simp add: Team_parse_rotation_def is_valid_rotation_def)
  have "rotation t = [] \<and> Team_records t = [Team_add_record t (Pitcher_record (pitcher t))]"
    if "Team_init i td = Inr t" for t
  proof -
    have "rotation t = []"
      using that r by (auto simp: Team_init_def Team_parse_def bind_err_Inr)
    then show ?thesis by (simp add: Team_records_def)
  qed
  with r show ?thesis by blast
qed

theorem unreleased_rotation_is_empty_witness:
  "lower ''No Lineup Released'' = ''no lineup released'' \<and>
   get_text (rotation_html sample_away_dict) = [] @ ''No Lineup Released'' @ [] \<and>
   Team_init 1 sample_away_dict = Inr (away sample_game) \<and>
   rotation (away sample_game) = [] \<and>
   Team_records (away sample_game) =
     [Team_add_record (away sample_game) (Pitcher_record sample_placeholder)]"
proof -
  have a: "lower ''No Lineup Released'' = ''no lineup released''" by code_simp
  have b: "get_text (rotation_html sample_away_dict) = [] @ ''No Lineup Released'' @ []"
    by (simp add: sample_away_dict_def sample_unreleased_def)
  have c: "Team_init 1 sample_away_dict = Inr (away sample_game)" by code_simp
  have d: "pitcher (away sample_game) = sample_placeholder" by (simp add: sample_game_def)
  show ?thesis
    using unreleased_rotation_is_empty [OF a b, of 1] a b c d by simp
qed

text \<open>
  C10. For a rotation region whose text lacks the marker: with no player sub-region in
  it, rotation parsing raises \<open>UnboundLocalError\<close> (the loop variable is read after a
  loop that never ran) instead of returning an empty rotation; so whenever parsing
  returns a rotation, the region has at least one player sub-region.
\<close>

theorem empty_valid_rotation_fails:
  "\<not> (\<exists>before after. lower (get_text container) = before @ ''no lineup released'' @ after) \<Longrightarrow>
     (select_class ''player'' container = [] \<longrightarrow>
        Team_parse_rotation container = Inl UnboundLocalError) \<and>
     (\<forall>rot. Team_parse_rotation container = Inr rot \<longrightarrow>
        select_class ''player'' container \<noteq> [])"
proof -
  assume "\<not> (\<exists>before after. lower (get_text container) = before @ ''no lineup released'' @ after)"
  then have v: "is_valid_rotation container"
    by (simp add: is_valid_rotation_def contains_iff)
  have a: "Team_parse_rotation container = Inl UnboundLocalError"
    if "select_class ''player'' container = []"
    using that v by (simp add: Team_parse_rotation_def)
  then show ?thesis by auto
qed

theorem empty_valid_rotation_fails_witness:
  "\<not> (\<exists>before after. lower (get_text sample_empty_rotation) = before @ ''no lineup released'' @ after) \<and>
   select_class ''player'' sample_empty_rotation = [] \<and>
   Team_parse_rotation sample_empty_rotation = Inl UnboundLocalError"
proof -
  have "\<not> contains ''no lineup released'' (lower (get_text sample_empty_rotation))"
    by code_simp
  then have h: "\<not> (\<exists>before after. lower (get_text sample_empty_rotation) = before @ ''no lineup released'' @ after)"
    by (simp add: contains_iff)
  have s: "select_class ''player'' sample_empty_rotation = []" by code_simp
  show ?thesis using empty_valid_rotation_fails [OF h] h s by blast
qed

text \<open>
  Whenever a region without the marker is parsed into a rotation, the rotation is the
  batters of the region's player sub-regions, in document order, followed by the last of
  them once more.
\<close>

lemma valid_rotation_shape:
  assumes "is_valid_rotation container" "Team_parse_rotation container = Inr rot"
  shows "\<exists>bs. list_all2 (\<lambda>p x. Batter_init p = Inr x) (select_class ''player'' container) bs \<and>
           bs \<noteq> [] \<and> rot = bs @ [last bs]"
proof -
  let ?ps = "select_class ''player'' container"
  from assms obtain r b where l: "rotation_loop ?ps [] None = Inr (r, Some b)"
    and rot: "rot = r @ [b]"
    by (auto simp: Team_parse_rotation_def bind_err_Inr split: option.splits)
  from rotation_loop_shape [OF l] obtain bs where bs: "r = bs"
    "list_all2 (\<lambda>p x. Batter_init p = Inr x) ?ps bs"
    "Some b = (if ?ps = [] then None else Some (last bs))" by auto
  then have "?ps \<noteq> []" "b = last bs" by (auto split: if_splits)
  then have "bs \<noteq> []" using bs(2) by (auto simp: list_all2_Nil2)
  then show ?thesis using bs rot \<open>b = last bs\<close> by blast
qed

text \<open>
  C1. The claim asks for one batter per player sub-region. On the sample rotation region,
  which lacks the marker and holds one player sub-region, the code returns two batters:
  the one parsed, and the same one again.
\<close>

theorem rotation_repeats_last_batter:
  "is_valid_rotation sample_rotation \<and>
   select_class ''player'' sample_rotation = [sample_batter] \<and>
   Team_parse_rotation sample_rotation = Inr [sample_lemahieu, sample_lemahieu]"
  by code_simp

section \<open>The records of a game\<close>

text \<open>
  C9. The records of a parsed game are those of the home side followed by those of the
  away side; each side gives its pitcher's record first and then its rotation's in order;
  every record is the player's own record together with the team's name and
  abbreviation, the game's time, temperature and precipitation, the opponent's name and
  abbreviation, and \<open>Is Home\<close>, which is true on the home side's records and false on the
  away side's.
\<close>

theorem game_records_layout:
  "Game_init soup = Inr g \<Longrightarrow>
     Game_records g =
       map (combined_record g (home g) (away g) True) (player_records (home g)) @
       map (combined_record g (away g) (home g) False) (player_records (away g))"
proof -
  assume "Game_init soup = Inr g"
  then have "ident (home g) = 0" "ident (away g) = 1" using Game_init_idents by blast+
  then show ?thesis
    by (simp add: Game_records_def Let_def add_team_records_combined)
qed

theorem game_records_layout_witness:
  "Game_init sample_card = Inr sample_game \<and>
   Game_records sample_game =
     [combined_record sample_game (home sample_game) (away sample_game) True
        (Pitcher_record sample_cole),
      combined_record sample_game (home sample_game) (away sample_game) True
        (Batter_record sample_lemahieu),
      combined_record sample_game (home sample_game) (away sample_game) True
        (Batter_record sample_lemahieu),
      combined_record sample_game (away sample_game) (home sample_game) False
        (Pitcher_record sample_placeholder)]"
proof -
  have "player_records (home sample_game) =
      [Pitcher_record sample_cole, Batter_record sample_lemahieu, Batter_record sample_lemahieu]"
    by (simp add: player_records_def sample_game_def)
  moreover have "player_records (away sample_game) = [Pitcher_record sample_placeholder]"
    by (simp add: player_records_def sample_game_def)
  ultimately show ?thesis
    using game_records_layout [OF sample_game_init] sample_game_init by simp
qed

section \<open>Numeric extraction\<close>

text \<open>
  C7, as amended. Where the text splits into a digit-free prefix, a non-empty run of
  decimal digits and a rest that does not go on with a digit, \<open>extract_int\<close> returns the
  number that run denotes if the run has at most 4300 digits, and raises \<open>ValueError\<close> if
  it has more (the interpreter's limit on \<open>int\<close>); where the text has no digit, it
  returns \<open>None\<close>. So a batter whose first cleaned line (the order line) has no digit gets
  the order \<open>None\<close>, not zero.
\<close>

theorem extract_int_first_digit_run:
  "(\<forall>pre run post.
      s = pre @ run @ post \<and> (\<forall>c \<in> set pre. \<not> is_digit c) \<and>
      run \<noteq> [] \<and> (\<forall>c \<in> set run. is_digit c) \<and> (post = [] \<or> \<not> is_digit (hd post))
      \<longrightarrow> extract_int s =
            (if length run \<le> int_max_str_digits then Inr (Some (decimal_value run))
             else Inl (ValueError exceeds_limit_msg))) \<and>
   ((\<forall>c \<in> set s. \<not> is_digit c) \<longrightarrow> extract_int s = Inr None) \<and>
   (\<forall>b line rest.
      Batter_init soup = Inr b \<and> clean_player (get_text soup) = line # rest \<and>
      (\<forall>c \<in> set line. \<not> is_digit c)
      \<longrightarrow> order b = None \<and> order b \<noteq> Some 0)"
proof (intro conjI allI impI)
  fix pre run post
  assume a: "s = pre @ run @ post \<and> (\<forall>c \<in> set pre. \<not> is_digit c) \<and>
      run \<noteq> [] \<and> (\<forall>c \<in> set run. is_digit c) \<and> (post = [] \<or> \<not> is_digit (hd post))"
  then have "extract_int (pre @ run @ post) =
      (if int_max_str_digits < length run then Inl (ValueError exceeds_limit_msg)
       else Inr (Some (decimal_value run)))"
    using extract_int_run by blast
  then show "extract_int s =
      (if length run \<le> int_max_str_digits then Inr (Some (decimal_value run))
       else Inl (ValueError exceeds_limit_msg))"
    using a by auto
next
  assume "\<forall>c \<in> set s. \<not> is_digit c"
  then show "extract_int s = Inr None"
    by (simp add: extract_int_def re_search_none [symmetric])
next
  fix b line rest
  assume a: "Batter_init soup = Inr b \<and> clean_player (get_text soup) = line # rest \<and>
      (\<forall>c \<in> set line. \<not> is_digit c)"
  then have "extract_int line = Inr None"
    by (simp add: extract_int_def re_search_none [symmetric])
  moreover have "index (line # rest) 0 = Inr line" by (simp add: index_def)
  ultimately have "order b = None"
    using a by (auto simp: Batter_init_def Batter_parse_def Let_def bind_err_Inr)
  then show "order b = None" "order b \<noteq> Some 0" by simp_all
qed

theorem extract_int_first_digit_run_witness:
  "extract_int ''ab12c3'' = Inr (Some 12) \<and>
   extract_int ''abc'' = Inr None \<and>
   (\<exists>b. Batter_init sample_unordered_batter = Inr b \<and>
      clean_player (get_text sample_unordered_batter) = [''Aaron Judge'', ''(R) RF''] \<and>
      order b = None)"
proof -
  have d: "decimal_value ''12'' = 12" by (simp add: decimal_value_foldl digit_val_def)
  have s: "''ab12c3'' = ''ab'' @ ''12'' @ ''c3''" by simp
  have h1: "(\<forall>c \<in> set ''ab''. \<not> is_digit c) \<and> (\<forall>c \<in> set ''12''. is_digit c) \<and> \<not> is_digit (hd ''c3'')"
    by (simp add: is_digit_def)
  have l: "length ''12'' \<le> int_max_str_digits" by (simp add: int_max_str_digits_def)
  have h2: "\<forall>c \<in> set ''abc''. \<not> is_digit c" by (simp add: is_digit_def)
  have b: "Batter_init sample_unordered_batter =
      Inr \<lparr>Player.name = Some ''Aaron Judge'', handedness = Some ''R'', mlb_id = Some 592450,
           order = None, Batter.position = ''RF''\<rparr>" by code_simp
  have c: "clean_player (get_text sample_unordered_batter) = [''Aaron Judge'', ''(R) RF'']"
    by code_simp
  have "''12'' \<noteq> []" by simp
  then have "extract_int ''ab12c3'' =
      (if length ''12'' \<le> int_max_str_digits then Inr (Some (decimal_value ''12''))
       else Inl (ValueError exceeds_limit_msg))"
    using extract_int_first_digit_run [of "''ab12c3''" sample_unordered_batter] s h1 by blast
  then have "extract_int ''ab12c3'' = Inr (Some 12)" using l d by simp
  moreover have "extract_int ''abc'' = Inr None"
    using extract_int_first_digit_run [of "''abc''" sample_unordered_batter] h2 by blast
  ultimately show ?thesis using b c by simp
qed

text \<open>The claim as it was stated fails on a run of 4301 digits.\<close>

theorem extract_int_long_run_counterexample:
  "extract_int (replicate 4301 (CHR ''1'')) = Inl (ValueError exceeds_limit_msg) \<and>
   extract_int (replicate 4301 (CHR ''1'')) \<noteq>
     Inr (Some (decimal_value (replicate 4301 (CHR ''1''))))"
proof -
  have "extract_int ([] @ replicate 4301 (CHR ''1'') @ []) =
      (if int_max_str_digits < length (replicate 4301 (CHR ''1''))
       then Inl (ValueError exceeds_limit_msg)
       else Inr (Some (decimal_value (replicate 4301 (CHR ''1'')))))"
    by (rule extract_int_run) (auto simp: is_digit_def)
  then show ?thesis by (simp add: int_max_str_digits_def)
qed

section \<open>League IDs\<close>




section \<open>The number of records\<close>

text \<open>
  C2. The sample page has one game card with a league marker. The home side's rotation
  region holds one batter and the away side's, with no lineup released, none; with one
  pitcher on each side the claim counts (1 + 1) + (0 + 1) = 3 records, one for each of
  the card's three player regions. \<open>records\<close> returns 4: the home rotation was parsed
  into two batters.
\<close>

theorem records_count_on_sample_page:
  "find_games (sample_page [sample_card, sample_ad]) = [sample_card] \<and>
   extract_object_html sample_card =
     Inr \<lparr>time_html = sample_time,
          farenheit_html = Elem ''div'' [] [] [Text ''72 F''],
          precipitation_html = Elem ''div'' [] [] [Text ''Rain''],
          home_dict = \<lparr>ids_html = sample_home_ids, pitcher_html = sample_pitcher,
                       rotation_html = sample_rotation\<rparr>,
          away_dict = sample_away_dict\<rparr> \<and>
   select_class ''player'' sample_rotation = [sample_batter] \<and>
   is_valid_rotation sample_rotation \<and>
   \<not> is_valid_rotation (rotation_html sample_away_dict) \<and>
   length (select_class ''player'' sample_card) = 3 \<and>
   DateGames_init ''2021-03-17'' ''2021-11-04'' (sample_page [sample_card, sample_ad]) True =
     Inr sample_dategames \<and>
   length (fst (DateGames_records sample_dategames)) = 4"
proof -
  have a: "find_games (sample_page [sample_card, sample_ad]) = [sample_card]"
    by (rule sample_find_games)
  have b: "extract_object_html sample_card =
     Inr \<lparr>time_html = sample_time,
          farenheit_html = Elem ''div'' [] [] [Text ''72 F''],
          precipitation_html = Elem ''div'' [] [] [Text ''Rain''],
          home_dict = \<lparr>ids_html = sample_home_ids, pitcher_html = sample_pitcher,
                       rotation_html = sample_rotation\<rparr>,
          away_dict = sample_away_dict\<rparr>"
    by code_simp
  have c: "select_class ''player'' sample_rotation = [sample_batter]" by code_simp
  have d: "is_valid_rotation sample_rotation" by code_simp
  have e: "\<not> is_valid_rotation (rotation_html sample_away_dict)" by code_simp
  have f: "length (select_class ''player'' sample_card) = 3" by code_simp
  have g: "length (fst (DateGames_records sample_dategames)) = 4"
    by (simp add: DateGames_records_def sample_dategames_def Game_records_def
        add_team_records_def Team_records_def sample_game_def Let_def)
  show ?thesis using a b c d e f g sample_init by simp
qed

section \<open>No games on a date\<close>

text \<open>
  C3. \<open>parse\<close> raises \<open>ValueError\<close> with the message \<open>No games discovered on this date.\<close>
  exactly when no game card of the page carries the \<open>data-league\<close> attribute. Every other
  exception it raises is one of those a malformed card gives rise to, and the no-games
  exception is none of them: where a malformed card raises a \<open>ValueError\<close> too (a wrong
  number of regions, a league ID that \<open>int\<close> refuses), the message tells the two apart.
\<close>

theorem no_games_condition:
  "(DateGames_parse self = Inl (ValueError no_games_msg) \<longleftrightarrow>
      (\<forall>c \<in> set (game_cards (raw self)). attrs_get ''data-league'' c = None)) \<and>
   (\<forall>e. DateGames_parse self = Inl e \<and> e \<noteq> ValueError no_games_msg
      \<longrightarrow> e \<in> malformed_card_errors) \<and>
   ValueError no_games_msg \<notin> malformed_card_errors"
proof (intro conjI allI impI)
  show "DateGames_parse self = Inl (ValueError no_games_msg) \<longleftrightarrow>
      (\<forall>c \<in> set (game_cards (raw self)). attrs_get ''data-league'' c = None)"
  proof (cases "find_games (raw self) = []")
    case True
    then show ?thesis
      using validate_games_empty [of "game_cards (raw self)"]
      by (simp add: DateGames_parse_def find_games_cards)
  next
    case False
    have "scrape_games (find_games (raw self)) \<noteq> Inl (ValueError no_games_msg)"
      using scrape_games_loop_err no_games_not_malformed
      by (auto simp: scrape_games_def)
    then have "DateGames_parse self \<noteq> Inl (ValueError no_games_msg)"
      using False by (auto simp: DateGames_parse_def Let_def bind_err_Inl)
    then show ?thesis
      using False validate_games_empty [of "game_cards (raw self)"]
      by (simp add: find_games_cards)
  qed
next
  fix e
  assume "DateGames_parse self = Inl e \<and> e \<noteq> ValueError no_games_msg"
  then show "e \<in> malformed_card_errors"
    by (auto simp: DateGames_parse_def Let_def bind_err_Inl scrape_games_def
        dest: scrape_games_loop_err split: if_splits)
next
  show "ValueError no_games_msg \<notin> malformed_card_errors" by (rule no_games_not_malformed)
qed

theorem no_games_condition_witness:
  "game_cards (sample_page [sample_ad]) = [sample_ad] \<and>
   attrs_get ''data-league'' sample_ad = None \<and>
   DateGames_parse (sample_self (sample_page [sample_ad])) = Inl (ValueError no_games_msg) \<and>
   game_cards (sample_page [sample_malformed_card, sample_ad]) = [sample_malformed_card, sample_ad] \<and>
   attrs_get ''data-league'' sample_malformed_card = Some ''MLB'' \<and>
   DateGames_parse (sample_self (sample_page [sample_malformed_card, sample_ad])) = Inl AttributeError \<and>
   AttributeError \<in> malformed_card_errors \<and>
   ValueError no_games_msg \<notin> malformed_card_errors"
proof -
  have a: "game_cards (sample_page [sample_ad]) = [sample_ad]" by code_simp
  have b: "attrs_get ''data-league'' sample_ad = None" by code_simp
  have c: "game_cards (sample_page [sample_malformed_card, sample_ad]) =
      [sample_malformed_card, sample_ad]" by code_simp
  have d: "attrs_get ''data-league'' sample_malformed_card = Some ''MLB''" by code_simp
  have f: "find_games (sample_page [sample_malformed_card, sample_ad]) = [sample_malformed_card]"
    by code_simp
  have g: "Game_init sample_malformed_card = Inl AttributeError" by code_simp
  have e: "DateGames_parse (sample_self (sample_page [sample_malformed_card, sample_ad])) =
      Inl AttributeError"
    by (simp add: DateGames_parse_def sample_self_def f g scrape_games_def)
  have "\<forall>c \<in> set (game_cards (raw (sample_self (sample_page [sample_ad])))).
      attrs_get ''data-league'' c = None"
    using a b by (simp add: sample_self_def)
  then have n: "DateGames_parse (sample_self (sample_page [sample_ad])) =
      Inl (ValueError no_games_msg)"
    using no_games_condition [of "sample_self (sample_page [sample_ad])"] by blast
  have "AttributeError \<in> malformed_card_errors"
    using no_games_condition [of "sample_self (sample_page [sample_malformed_card, sample_ad])"] e
    by auto
  then show ?thesis
    using a b c d e n no_games_condition [of "sample_self (sample_page [sample_ad])"] by simp
qed

end
